theory Spec2Isabelle
  imports Complex_Main
begin

section \<open>Subscription detection of the Treeline subscriptions plugin\<close>

text \<open>
  The development embeds \<^verbatim>\<open>src/SubscriptionsView.svelte\<close>: the detection query that
  \<^verbatim>\<open>detectSubscriptions\<close> sends to the database, the callback that turns each returned
  row into a \<^verbatim>\<open>Subscription\<close>, and the two actions \<^verbatim>\<open>hideSubscription\<close> and
  \<^verbatim>\<open>unhideSubscription\<close> with the table \<^verbatim>\<open>sys_plugin_subscriptions\<close> they write.

  Conventions of the embedding.
  \<^item> Numbers are modelled twice. In the first model a JavaScript \<^verbatim>\<open>number\<close> and an SQL
    \<^verbatim>\<open>DOUBLE\<close>/\<^verbatim>\<open>DECIMAL\<close> are \<^typ>\<open>real\<close> and arithmetic is exact; it serves the
    properties that do not depend on rounding. In the second model (the definitions whose
    names end in \<open>64\<close>) every arithmetic result is rounded to IEEE binary64, as the
    engine and JavaScript do; it serves the properties that rounding decides: which
    clusters pass the dispersion test, and the cents of amount and annual cost. In both,
    the division \<^verbatim>\<open>365 / intervalDays\<close> by zero is a value of its own (\<open>NonFinite\<close>).
  \<^item> A calendar date is its day number (\<^typ>\<open>int\<close>), so \<^verbatim>\<open>DATEDIFF('day', a, b)\<close> is
    \<open>b - a\<close>. The columns \<^verbatim>\<open>amount\<close> and \<^verbatim>\<open>transaction_date\<close> are taken to be non-null; the
    column \<^verbatim>\<open>description\<close> may be \<^verbatim>\<open>NULL\<close> (\<open>None\<close>).
  \<^item> The SQL is given its standard meaning. \<^verbatim>\<open>STDDEV\<close> is the sample standard deviation
    (divisor \<open>n - 1\<close>, \<^verbatim>\<open>NULL\<close> on fewer than two values), as in the DuckDB engine the
    query's \<^verbatim>\<open>DATEDIFF('day', ...)\<close> syntax belongs to. Where SQL leaves an order open
    (rows of equal date inside a window partition, rows of equal sort key under
    \<^verbatim>\<open>ORDER BY\<close>), the model keeps the order of the input (a stable sort).
  \<^item> A call of the host SDK that may throw (\<^verbatim>\<open>sdk.query\<close>, \<^verbatim>\<open>sdk.execute\<close>) takes its
    outcome as an argument: the message it throws, or its success.
\<close>

subsection \<open>The ledger and the rows of the detection query\<close>

type_synonym date = int

text \<open>A row of the table \<^verbatim>\<open>transactions\<close>, with the three columns the query reads.\<close>

record transaction =
  description :: "string option"
  txn_amount :: real
  transaction_date :: date

text \<open>A row of the common table expression \<^verbatim>\<open>merchant_transactions\<close>.\<close>

record merchant_transaction =
  mt_merchant :: string
  mt_amount :: real
  mt_transaction_date :: date
  prev_date :: "date option"

text \<open>A row of \<^verbatim>\<open>merchant_intervals\<close>.\<close>

record merchant_interval =
  mi_merchant :: string
  mi_amount :: real
  mi_transaction_date :: date
  mi_interval_days :: int

text \<open>
  A row of \<^verbatim>\<open>merchant_stats\<close>, which the query returns and the callback reads by
  position (\<^verbatim>\<open>row[0]\<close> to \<^verbatim>\<open>row[6]\<close>).
\<close>

record stats_row =
  row_merchant :: string
  avg_amount :: real
  row_occurrence_count :: nat
  avg_interval :: real
  stddev_interval :: real
  row_last_charge :: date
  row_first_charge :: date

subsection \<open>SQL aggregates\<close>

definition AVG :: "real list \<Rightarrow> real option" where
  "AVG xs = (if xs = [] then None else Some (sum_list xs / real (length xs)))"

text \<open>Sample variance and standard deviation; \<^verbatim>\<open>NULL\<close> below two values.\<close>

definition VAR_SAMP :: "real list \<Rightarrow> real option" where
  "VAR_SAMP xs =
     (if length xs < 2 then None
      else Some (sum_list (map (\<lambda>x. (x - sum_list xs / real (length xs))\<^sup>2) xs)
                 / (real (length xs) - 1)))"

definition STDDEV :: "real list \<Rightarrow> real option" where
  "STDDEV xs = (case VAR_SAMP xs of None \<Rightarrow> None | Some v \<Rightarrow> Some (sqrt v))"

definition MAX_date :: "date list \<Rightarrow> date option" where
  "MAX_date ds = (case ds of [] \<Rightarrow> None | d # ds' \<Rightarrow> Some (fold max ds' d))"

definition MIN_date :: "date list \<Rightarrow> date option" where
  "MIN_date ds = (case ds of [] \<Rightarrow> None | d # ds' \<Rightarrow> Some (fold min ds' d))"

subsection \<open>The detection query\<close>

text \<open>
  \<^verbatim>\<open>WHERE amount < 0 AND description IS NOT NULL AND description != ''\<close>, together with
  \<^verbatim>\<open>description as merchant\<close>: the merchant key of a transaction the query keeps is its
  description, unchanged; a transaction the query drops has none.
\<close>

definition merchant_key :: "transaction \<Rightarrow> string option" where
  "merchant_key t =
     (if txn_amount t < 0 then
        (case description t of
           None \<Rightarrow> None
         | Some d \<Rightarrow> if d = [] then None else Some d)
      else None)"

text \<open>
  One window partition of \<^verbatim>\<open>PARTITION BY description ORDER BY transaction_date\<close>: the kept
  transactions of one description, by ascending date.
\<close>

definition window_partition :: "string \<Rightarrow> transaction list \<Rightarrow> transaction list" where
  "window_partition m txs =
     sort_key transaction_date (filter (\<lambda>t. merchant_key t = Some m) txs)"

text \<open>\<^verbatim>\<open>LAG(transaction_date)\<close> along a partition: the date of the row before, none for the first.\<close>

fun LAG :: "string \<Rightarrow> date option \<Rightarrow> transaction list \<Rightarrow> merchant_transaction list" where
  "LAG m p [] = []"
| "LAG m p (t # ts) =
     \<lparr>mt_merchant = m, mt_amount = txn_amount t,
      mt_transaction_date = transaction_date t, prev_date = p\<rparr>
     # LAG m (Some (transaction_date t)) ts"

text \<open>The descriptions that have a partition, each once, in order of first appearance.\<close>

definition partitions :: "transaction list \<Rightarrow> string list" where
  "partitions txs = remdups (List.map_filter merchant_key txs)"

definition merchant_transactions :: "transaction list \<Rightarrow> merchant_transaction list" where
  "merchant_transactions txs =
     concat (map (\<lambda>m. LAG m None (window_partition m txs)) (partitions txs))"

text \<open>
  \<^verbatim>\<open>merchant_intervals\<close>: the rows with a previous date (\<^verbatim>\<open>WHERE prev_date IS NOT NULL\<close>),
  with \<^verbatim>\<open>DATEDIFF('day', prev_date, transaction_date)\<close>.
\<close>

definition interval_of :: "merchant_transaction \<Rightarrow> merchant_interval option" where
  "interval_of r =
     (case prev_date r of
        None \<Rightarrow> None
      | Some p \<Rightarrow>
          Some \<lparr>mi_merchant = mt_merchant r, mi_amount = mt_amount r,
                mi_transaction_date = mt_transaction_date r,
                mi_interval_days = mt_transaction_date r - p\<rparr>)"

definition merchant_intervals :: "transaction list \<Rightarrow> merchant_interval list" where
  "merchant_intervals txs = List.map_filter interval_of (merchant_transactions txs)"

text \<open>
  One group of \<^verbatim>\<open>GROUP BY merchant\<close> with its aggregates, kept when the \<^verbatim>\<open>HAVING\<close>
  condition is true (a \<^verbatim>\<open>NULL\<close> aggregate makes it not true):
  \<^verbatim>\<open>COUNT(*) >= 2 AND AVG(interval_days) BETWEEN 5 AND 400
  AND STDDEV(interval_days) < AVG(interval_days) * 0.3\<close>.
\<close>

definition stats_of_group :: "string \<Rightarrow> merchant_interval list \<Rightarrow> stats_row option" where
  "stats_of_group m g =
     (case (AVG (map (\<lambda>r. \<bar>mi_amount r\<bar>) g),
            AVG (map (\<lambda>r. real_of_int (mi_interval_days r)) g),
            STDDEV (map (\<lambda>r. real_of_int (mi_interval_days r)) g),
            MAX_date (map mi_transaction_date g),
            MIN_date (map mi_transaction_date g)) of
        (Some a, Some i, Some s, Some l, Some f) \<Rightarrow>
          if length g \<ge> 2 \<and> 5 \<le> i \<and> i \<le> 400 \<and> s < i * (3 / 10)
          then Some \<lparr>row_merchant = m, avg_amount = a,
                     row_occurrence_count = length g + 1,
                     avg_interval = i, stddev_interval = s,
                     row_last_charge = l, row_first_charge = f\<rparr>
          else None
      | _ \<Rightarrow> None)"

definition merchant_stats :: "transaction list \<Rightarrow> stats_row list" where
  "merchant_stats txs =
     List.map_filter
       (\<lambda>m. stats_of_group m (filter (\<lambda>r. mi_merchant r = m) (merchant_intervals txs)))
       (remdups (map mi_merchant (merchant_intervals txs)))"

text \<open>\<^verbatim>\<open>ORDER BY avg_amount * (365.0 / avg_interval) DESC\<close>\<close>

definition order_key :: "stats_row \<Rightarrow> real" where
  "order_key r = avg_amount r * (365 / avg_interval r)"

definition detection_query :: "transaction list \<Rightarrow> stats_row list" where
  "detection_query txs = sort_key (\<lambda>r. - order_key r) (merchant_stats txs)"

subsection \<open>From a returned row to a \<^verbatim>\<open>Subscription\<close>\<close>

text \<open>
  A JavaScript number that may have left the finite ones: \<^verbatim>\<open>365 / 0\<close> is \<^verbatim>\<open>Infinity\<close>, and a
  product with it is \<^verbatim>\<open>Infinity\<close>, \<^verbatim>\<open>-Infinity\<close> or \<^verbatim>\<open>NaN\<close>; rounding keeps all three.
\<close>

datatype number = Finite real | NonFinite

record Subscription =
  merchant :: string
  amount :: real
  frequency :: string
  interval_days :: int
  occurrence_count :: nat
  annual_cost :: number
  last_charge :: date
  first_charge :: date
  is_hidden :: bool

text \<open>\<^verbatim>\<open>Math.round\<close>: the nearest integer, a half going up.\<close>

definition Math_round :: "real \<Rightarrow> int" where
  "Math_round x = \<lfloor>x + 1 / 2\<rfloor>"

text \<open>\<^verbatim>\<open>Math.round(x * 100) / 100\<close>\<close>

definition round_cents :: "real \<Rightarrow> real" where
  "round_cents x = real_of_int (Math_round (x * 100)) / 100"

text \<open>The chain of \<^verbatim>\<open>if\<close>/\<^verbatim>\<open>else if\<close> on \<^verbatim>\<open>intervalDays\<close>, which starts from \<^verbatim>\<open>"unknown"\<close>.\<close>

definition frequency_of :: "int \<Rightarrow> string" where
  "frequency_of intervalDays =
     (if intervalDays \<le> 8 then ''weekly''
      else if intervalDays \<le> 16 then ''bi-weekly''
      else if intervalDays \<le> 35 then ''monthly''
      else if intervalDays \<le> 100 then ''quarterly''
      else if intervalDays \<le> 200 then ''semi-annual''
      else ''annual'')"

text \<open>\<^verbatim>\<open>avg_amount * (365 / intervalDays)\<close>\<close>

definition annualCost :: "real \<Rightarrow> int \<Rightarrow> number" where
  "annualCost a intervalDays =
     (if intervalDays = 0 then NonFinite
      else Finite (a * (365 / real_of_int intervalDays)))"

definition round_cents_number :: "number \<Rightarrow> number" where
  "round_cents_number x = (case x of Finite c \<Rightarrow> Finite (round_cents c) | NonFinite \<Rightarrow> NonFinite)"

text \<open>The callback of \<^verbatim>\<open>rows.map\<close>, given the set \<^verbatim>\<open>hiddenMerchants\<close> it reads.\<close>

definition toSubscription :: "string set \<Rightarrow> stats_row \<Rightarrow> Subscription" where
  "toSubscription hidden row =
     (let intervalDays = Math_round (avg_interval row) in
      \<lparr>merchant = row_merchant row,
       amount = round_cents (avg_amount row),
       frequency = frequency_of intervalDays,
       interval_days = intervalDays,
       occurrence_count = row_occurrence_count row,
       annual_cost = round_cents_number (annualCost (avg_amount row) intervalDays),
       last_charge = row_last_charge row,
       first_charge = row_first_charge row,
       is_hidden = (row_merchant row \<in> hidden)\<rparr>)"

subsection \<open>The component's state and \<^verbatim>\<open>detectSubscriptions\<close>\<close>

text \<open>A call of \<^verbatim>\<open>sdk.toast.error\<close> or \<^verbatim>\<open>sdk.toast.info\<close>, with its two arguments.\<close>

datatype toast = ToastError string string | ToastInfo string string

record view_state =
  subscriptions :: "Subscription list"
  hiddenMerchants :: "string set"
  isLoading :: bool
  toasts :: "toast list"

text \<open>The initial values of the \<^verbatim>\<open>$state\<close> declarations.\<close>

definition initial_state :: view_state where
  "initial_state =
     \<lparr>subscriptions = [], hiddenMerchants = {}, isLoading = True, toasts = []\<rparr>"

text \<open>
  \<^verbatim>\<open>detectSubscriptions\<close>. Its first argument is what \<^verbatim>\<open>sdk.query\<close> does: \<open>Inl e\<close> when it
  throws with message \<open>e\<close>, \<open>Inr txs\<close> when it evaluates the query over the ledger \<open>txs\<close>.
  The \<^verbatim>\<open>catch\<close> branch shows a toast and assigns nothing; \<^verbatim>\<open>finally\<close> clears \<^verbatim>\<open>isLoading\<close>.
\<close>

definition detectSubscriptions :: "string + transaction list \<Rightarrow> view_state \<Rightarrow> view_state" where
  "detectSubscriptions q st =
     (case q of
        Inr txs \<Rightarrow>
          st\<lparr>subscriptions := map (toSubscription (hiddenMerchants st)) (detection_query txs),
             isLoading := False\<rparr>
      | Inl e \<Rightarrow>
          st\<lparr>toasts := toasts st @ [ToastError ''Failed to detect subscriptions'' e],
             isLoading := False\<rparr>)"

subsection \<open>The override table and the actions \<^verbatim>\<open>hideSubscription\<close>, \<^verbatim>\<open>unhideSubscription\<close>\<close>

text \<open>
  The table \<^verbatim>\<open>sys_plugin_subscriptions (merchant VARCHAR PRIMARY KEY, hidden_at TIMESTAMP)\<close>
  as the list of its rows. The primary key says that no two rows share a merchant.
\<close>

type_synonym timestamp = nat

type_synonym override_table = "(string \<times> timestamp option) list"

definition primary_key :: "override_table \<Rightarrow> bool" where
  "primary_key tbl = distinct (map fst tbl)"

text \<open>
  \<^verbatim>\<open>INSERT ... VALUES (merchant, NOW()) ON CONFLICT (merchant) DO UPDATE SET hidden_at = NOW()\<close>
\<close>

definition upsert_hidden :: "string \<Rightarrow> timestamp \<Rightarrow> override_table \<Rightarrow> override_table" where
  "upsert_hidden m now tbl =
     (if m \<in> set (map fst tbl)
      then map (\<lambda>r. if fst r = m then (m, Some now) else r) tbl
      else tbl @ [(m, Some now)])"

text \<open>\<^verbatim>\<open>DELETE FROM sys_plugin_subscriptions WHERE merchant = ...\<close>\<close>

definition delete_merchant :: "string \<Rightarrow> override_table \<Rightarrow> override_table" where
  "delete_merchant m tbl = filter (\<lambda>r. fst r \<noteq> m) tbl"

text \<open>
  \<^verbatim>\<open>SELECT merchant FROM sys_plugin_subscriptions WHERE hidden_at IS NOT NULL\<close>, collected
  into a set.
\<close>

definition list_hidden :: "override_table \<Rightarrow> string set" where
  "list_hidden tbl = fst ` set (filter (\<lambda>r. snd r \<noteq> None) tbl)"

text \<open>
  \<^verbatim>\<open>loadHiddenMerchants\<close>, given what \<^verbatim>\<open>sdk.query\<close> does: the \<^verbatim>\<open>catch\<close> branch is empty, so a
  failed read leaves the set as it is.
\<close>

definition loadHiddenMerchants :: "string + override_table \<Rightarrow> view_state \<Rightarrow> view_state" where
  "loadHiddenMerchants q st =
     (case q of
        Inr tbl \<Rightarrow> st\<lparr>hiddenMerchants := list_hidden tbl\<rparr>
      | Inl e \<Rightarrow> st)"

text \<open>
  \<^verbatim>\<open>hideSubscription\<close>. The first argument is the outcome of \<^verbatim>\<open>sdk.execute\<close>: \<open>Some e\<close>
  when it throws with message \<open>e\<close> (the table is then as before), \<open>None\<close> when the
  statement ran at time \<open>now\<close>. The quote doubling \<^verbatim>\<open>merchant.replace(/'/g, "''")\<close> is how the
  SQL literal spells the string \<open>m\<close>, so that the row's key is \<open>m\<close> itself.
\<close>

definition hideSubscription ::
  "string option \<Rightarrow> timestamp \<Rightarrow> string \<Rightarrow> view_state \<times> override_table
     \<Rightarrow> view_state \<times> override_table" where
  "hideSubscription fault now m w =
     (case w of (st, tbl) \<Rightarrow>
        (case fault of
           None \<Rightarrow>
             (st\<lparr>hiddenMerchants := insert m (hiddenMerchants st),
                 toasts := toasts st @
                   [ToastInfo ''Hidden''
                      (m @ '' won'' @ [CHR 0x27] @ ''t appear in your subscriptions'')]\<rparr>,
              upsert_hidden m now tbl)
         | Some e \<Rightarrow>
             (st\<lparr>toasts := toasts st @ [ToastError ''Failed to hide'' e]\<rparr>, tbl)))"

definition unhideSubscription ::
  "string option \<Rightarrow> string \<Rightarrow> view_state \<times> override_table
     \<Rightarrow> view_state \<times> override_table" where
  "unhideSubscription fault m w =
     (case w of (st, tbl) \<Rightarrow>
        (case fault of
           None \<Rightarrow>
             (st\<lparr>hiddenMerchants := hiddenMerchants st - {m},
                 toasts := toasts st @ [ToastInfo ''Restored'' (m @ '' is visible again'')]\<rparr>,
              delete_merchant m tbl)
         | Some e \<Rightarrow>
             (st\<lparr>toasts := toasts st @ [ToastError ''Failed to restore'' e]\<rparr>, tbl)))"


subsection \<open>Double precision\<close>

text \<open>
  IEEE binary64 rounding of a real number: to the nearest number with a 53-bit
  significand, a tie going to the even significand. The exponent range is not modelled
  (no overflow to infinity, no subnormal numbers): the amounts of a ledger, their
  products with 365 and 100, and the day gaps are far inside it.
\<close>

definition ties_even :: "real \<Rightarrow> int" where
  "ties_even x =
     (let f = \<lfloor>x\<rfloor> in
      if x - real_of_int f < 1 / 2 then f
      else if 1 / 2 < x - real_of_int f then f + 1
      else if even f then f else f + 1)"

definition binary64 :: "real \<Rightarrow> real" where
  "binary64 x =
     (if x = 0 then 0
      else (let u = 2 powr real_of_int (\<lfloor>log 2 \<bar>x\<bar>\<rfloor> - 52)
            in real_of_int (ties_even (x / u)) * u))"

text \<open>
  The engine's aggregates in double precision. The database engine is not part of the
  repository; the query's \<^verbatim>\<open>DATEDIFF('day', ...)\<close> is DuckDB's, and the model follows that
  engine. \<^verbatim>\<open>AVG\<close> adds its exact inputs (integers, decimals) exactly and divides once.
  \<^verbatim>\<open>STDDEV\<close> is \<^verbatim>\<open>stddev_samp\<close>, computed in one pass over the rows of the group, here in
  the order of the dates: each row updates a count, a running mean and a running sum of
  squared differences,
  \<^verbatim>\<open>mean_differential = (input - mean) / count; new_mean = mean + mean_differential;
  dsquared += (input - new_mean) * (input - mean)\<close>,
  and the result is \<^verbatim>\<open>sqrt(dsquared / (count - 1))\<close>, \<^verbatim>\<open>NULL\<close> below two rows.
\<close>

record welford =
  w_count :: nat
  w_mean :: real
  w_dsquared :: real

definition welford_step :: "welford \<Rightarrow> real \<Rightarrow> welford" where
  "welford_step state input =
     (let count = w_count state + 1;
          mean_differential = binary64 (binary64 (input - w_mean state) / real count);
          new_mean = binary64 (w_mean state + mean_differential);
          dsquared_increment =
            binary64 (binary64 (input - new_mean) * binary64 (input - w_mean state));
          new_dsquared = binary64 (w_dsquared state + dsquared_increment)
      in \<lparr>w_count = count, w_mean = new_mean, w_dsquared = new_dsquared\<rparr>)"

definition welford_all :: "real list \<Rightarrow> welford" where
  "welford_all xs =
     fold (\<lambda>x s. welford_step s x) xs \<lparr>w_count = 0, w_mean = 0, w_dsquared = 0\<rparr>"

definition STDDEV64 :: "real list \<Rightarrow> real option" where
  "STDDEV64 xs =
     (let s = welford_all xs in
      if w_count s \<le> 1 then None
      else Some (binary64 (sqrt (binary64 (w_dsquared s / (real (w_count s) - 1))))))"

definition AVG64 :: "real list \<Rightarrow> real option" where
  "AVG64 xs = (if xs = [] then None else Some (binary64 (sum_list xs / real (length xs))))"

text \<open>
  The group's row and the \<^verbatim>\<open>HAVING\<close> condition on the rounded aggregates; the literal
  \<^verbatim>\<open>0.3\<close> becomes the double nearest to it, and the product is rounded.
\<close>

definition stats_of_group64 :: "string \<Rightarrow> merchant_interval list \<Rightarrow> stats_row option" where
  "stats_of_group64 m g =
     (case (AVG64 (map (\<lambda>r. \<bar>mi_amount r\<bar>) g),
            AVG64 (map (\<lambda>r. real_of_int (mi_interval_days r)) g),
            STDDEV64 (map (\<lambda>r. real_of_int (mi_interval_days r)) g),
            MAX_date (map mi_transaction_date g),
            MIN_date (map mi_transaction_date g)) of
        (Some a, Some i, Some s, Some l, Some f) \<Rightarrow>
          if length g \<ge> 2 \<and> 5 \<le> i \<and> i \<le> 400 \<and> s < binary64 (i * binary64 (3 / 10))
          then Some \<lparr>row_merchant = m, avg_amount = a,
                     row_occurrence_count = length g + 1,
                     avg_interval = i, stddev_interval = s,
                     row_last_charge = l, row_first_charge = f\<rparr>
          else None
      | _ \<Rightarrow> None)"

definition merchant_stats64 :: "transaction list \<Rightarrow> stats_row list" where
  "merchant_stats64 txs =
     List.map_filter
       (\<lambda>m. stats_of_group64 m (filter (\<lambda>r. mi_merchant r = m) (merchant_intervals txs)))
       (remdups (map mi_merchant (merchant_intervals txs)))"

definition order_key64 :: "stats_row \<Rightarrow> real" where
  "order_key64 r = binary64 (avg_amount r * binary64 (365 / avg_interval r))"

definition detection_query64 :: "transaction list \<Rightarrow> stats_row list" where
  "detection_query64 txs = sort_key (\<lambda>r. - order_key64 r) (merchant_stats64 txs)"

text \<open>
  The callback in double precision. \<^verbatim>\<open>Math.round\<close> is exact on a double: the nearest
  integer, a half going up. The products and quotients around it are rounded.
\<close>

definition round_cents64 :: "real \<Rightarrow> real" where
  "round_cents64 x = binary64 (real_of_int (Math_round (binary64 (x * 100))) / 100)"

definition annualCost64 :: "real \<Rightarrow> int \<Rightarrow> number" where
  "annualCost64 a intervalDays =
     (if intervalDays = 0 then NonFinite
      else Finite (binary64 (a * binary64 (365 / real_of_int intervalDays))))"

definition round_cents_number64 :: "number \<Rightarrow> number" where
  "round_cents_number64 x =
     (case x of Finite c \<Rightarrow> Finite (round_cents64 c) | NonFinite \<Rightarrow> NonFinite)"

definition toSubscription64 :: "string set \<Rightarrow> stats_row \<Rightarrow> Subscription" where
  "toSubscription64 hidden row =
     (let intervalDays = Math_round (avg_interval row) in
      \<lparr>merchant = row_merchant row,
       amount = round_cents64 (avg_amount row),
       frequency = frequency_of intervalDays,
       interval_days = intervalDays,
       occurrence_count = row_occurrence_count row,
       annual_cost = round_cents_number64 (annualCost64 (avg_amount row) intervalDays),
       last_charge = row_last_charge row,
       first_charge = row_first_charge row,
       is_hidden = (row_merchant row \<in> hidden)\<rparr>)"

definition detectSubscriptions64 ::
  "string + transaction list \<Rightarrow> view_state \<Rightarrow> view_state" where
  "detectSubscriptions64 q st =
     (case q of
        Inr txs \<Rightarrow>
          st\<lparr>subscriptions := map (toSubscription64 (hiddenMerchants st)) (detection_query64 txs),
             isLoading := False\<rparr>
      | Inl e \<Rightarrow>
          st\<lparr>toasts := toasts st @ [ToastError ''Failed to detect subscriptions'' e],
             isLoading := False\<rparr>)"

text \<open>The engine's mean, standard deviation and test of a list of gaps, as total functions.\<close>

definition mean64 :: "real list \<Rightarrow> real" where
  "mean64 xs = binary64 (sum_list xs / real (length xs))"

definition stddev64 :: "real list \<Rightarrow> real" where
  "stddev64 xs =
     binary64 (sqrt (binary64 (w_dsquared (welford_all xs) / (real (length xs) - 1))))"

definition accepted64 :: "real list \<Rightarrow> bool" where
  "accepted64 gaps \<longleftrightarrow>
     2 \<le> length gaps \<and> 5 \<le> mean64 gaps \<and> mean64 gaps \<le> 400
     \<and> stddev64 gaps < binary64 (mean64 gaps * binary64 (3 / 10))"

subsection \<open>The classifier in the words of the specification\<close>

text \<open>
  The specification describes detection by clusters and gaps rather than by SQL. These
  definitions follow its words, to be compared with the query: a cluster is the charges
  sharing a merchant key; its intervals are the whole-day differences between
  consecutive charges in date order; a cluster is accepted on at least two gaps, a mean
  gap from 5 to 400 days, and a standard deviation below 0.3 times the mean. The
  standard deviation is the sample one, the query's \<^verbatim>\<open>STDDEV\<close>.
\<close>

definition cluster :: "string \<Rightarrow> transaction list \<Rightarrow> transaction list" where
  "cluster m txs = filter (\<lambda>t. merchant_key t = Some m) txs"

fun day_gaps :: "date list \<Rightarrow> int list" where
  "day_gaps (a # b # ds) = (b - a) # day_gaps (b # ds)"
| "day_gaps ds = []"

definition extract_intervals :: "transaction list \<Rightarrow> int list" where
  "extract_intervals c = day_gaps (map transaction_date (sort_key transaction_date c))"

definition mean :: "real list \<Rightarrow> real" where
  "mean xs = sum_list xs / real (length xs)"

definition stddev :: "real list \<Rightarrow> real" where
  "stddev xs = sqrt (sum_list (map (\<lambda>x. (x - mean xs)\<^sup>2) xs) / (real (length xs) - 1))"

definition accepted :: "real list \<Rightarrow> bool" where
  "accepted gaps \<longleftrightarrow>
     2 \<le> length gaps \<and> 5 \<le> mean gaps \<and> mean gaps \<le> 400 \<and> stddev gaps < 3 / 10 * mean gaps"

subsection \<open>Example ledgers\<close>

definition charge :: "string \<Rightarrow> real \<Rightarrow> date \<Rightarrow> transaction" where
  "charge d a dt = \<lparr>description = Some d, txn_amount = a, transaction_date = dt\<rparr>"

text \<open>Three charges of 15.00 every 30 days, and a merchant charged only twice.\<close>

definition netflix_ledger :: "transaction list" where
  "netflix_ledger =
     [charge ''NETFLIX'' (-15) 0, charge ''ONEOFF'' (-20) 10, charge ''NETFLIX'' (-15) 30,
      charge ''ONEOFF'' (-20) 40, charge ''NETFLIX'' (-15) 60]"

text \<open>Two near-duplicate descriptions, three charges of 9.99 each, every 30 days.\<close>

definition spotify_ledger :: "transaction list" where
  "spotify_ledger =
     [charge ''SPOTIFY USA'' (-999 / 100) 0, charge ''SPOTIFY USA 2'' (-999 / 100) 10,
      charge ''SPOTIFY USA'' (-999 / 100) 30, charge ''SPOTIFY USA 2'' (-999 / 100) 40,
      charge ''SPOTIFY USA'' (-999 / 100) 60, charge ''SPOTIFY USA 2'' (-999 / 100) 70]"

text \<open>A weekly charge of 10.00, 10.00, 10.01, 10.01.\<close>

definition gym_ledger :: "transaction list" where
  "gym_ledger =
     [charge ''GYM'' (-10) 0, charge ''GYM'' (-10) 7,
      charge ''GYM'' (-1001 / 100) 14, charge ''GYM'' (-1001 / 100) 21]"

text \<open>
  Two merchants of four charges each: ALPHA pays 10.00 with gaps of 30, 30 and 31 days,
  BETA pays 9.95 with gaps of 30, 30 and 29 days.
\<close>

definition alpha_beta_ledger :: "transaction list" where
  "alpha_beta_ledger =
     [charge ''ALPHA'' (-10) 0, charge ''BETA'' (-995 / 100) 0,
      charge ''ALPHA'' (-10) 30, charge ''BETA'' (-995 / 100) 30,
      charge ''ALPHA'' (-10) 60, charge ''BETA'' (-995 / 100) 60,
      charge ''ALPHA'' (-10) 91, charge ''BETA'' (-995 / 100) 89]"


text \<open>Charges of 1.00, 1.00 and 1.01; and a charge of 0.15; both every 30 days.\<close>

definition news_ledger :: "transaction list" where
  "news_ledger =
     [charge ''NEWS'' (-1) 0, charge ''NEWS'' (-1) 30, charge ''NEWS'' (-101 / 100) 60]"

definition app_ledger :: "transaction list" where
  "app_ledger =
     [charge ''APP'' (-15 / 100) 0, charge ''APP'' (-15 / 100) 30, charge ''APP'' (-15 / 100) 60]"


section \<open>Properties of the detection query\<close>

subsection \<open>Groups of the query are clusters\<close>

lemma LAG_merchant: "r \<in> set (LAG m p ts) \<Longrightarrow> mt_merchant r = m"
  by (induction ts arbitrary: p) auto

lemma set_map_filter: "set (List.map_filter f xs) = {y. \<exists>x\<in>set xs. f x = Some y}"
  by (induction xs) (auto simp: List.map_filter_simps split: option.splits)

lemma map_filter_concat:
  "List.map_filter g (concat xss) = concat (map (List.map_filter g) xss)"
  by (induction xss) (simp_all add: List.map_filter_def)

text \<open>Filtering a concatenation of blocks, each block holding one key only.\<close>

lemma filter_concat_keyed:
  assumes "distinct ps" and "\<And>p r. p \<in> set ps \<Longrightarrow> r \<in> set (f p) \<Longrightarrow> key r = p"
  shows "filter (\<lambda>r. key r = m) (concat (map f ps)) = (if m \<in> set ps then f m else [])"
  using assms
proof (induction ps)
  case Nil
  then show ?case by simp
next
  case (Cons p ps)
  have own: "filter (\<lambda>r. key r = m) (f p) = (if p = m then f p else [])"
    using Cons.prems(2)[of p] by (auto simp: filter_empty_conv intro: filter_True)
  have rest: "filter (\<lambda>r. key r = m) (concat (map f ps)) = (if m \<in> set ps then f m else [])"
    using Cons by auto
  show ?case using Cons.prems(1) own rest by auto
qed

lemma filter_map_filter_keyed:
  assumes "distinct ms" and "\<And>p r. F p = Some r \<Longrightarrow> key r = p"
  shows "filter (\<lambda>r. key r = m) (List.map_filter F ms)
           = (if m \<in> set ms then (case F m of None \<Rightarrow> [] | Some r \<Rightarrow> [r]) else [])"
  using assms(1)
proof (induction ms)
  case Nil
  then show ?case by simp
next
  case (Cons p ms)
  then have IH: "filter (\<lambda>r. key r = m) (List.map_filter F ms)
           = (if m \<in> set ms then (case F m of None \<Rightarrow> [] | Some r \<Rightarrow> [r]) else [])"
    by simp
  show ?case
  proof (cases "F p")
    case None
    with Cons.prems IH show ?thesis by auto
  next
    case (Some r)
    then have "key r = p" by (rule assms(2))
    with Some Cons.prems IH show ?thesis by auto
  qed
qed

lemma interval_of_merchant:
  "r \<in> set (List.map_filter interval_of (LAG m p ts)) \<Longrightarrow> mi_merchant r = m"
  by (auto simp: set_map_filter interval_of_def LAG_merchant split: option.splits)

lemma partitions_set: "m \<in> set (partitions txs) \<longleftrightarrow> (\<exists>t\<in>set txs. merchant_key t = Some m)"
  by (auto simp: partitions_def set_map_filter)

lemma window_partition_empty: "m \<notin> set (partitions txs) \<Longrightarrow> window_partition m txs = []"
  by (auto simp: partitions_set window_partition_def filter_empty_conv)

text \<open>The group of \<open>m\<close> under \<^verbatim>\<open>GROUP BY merchant\<close> is the interval rows of the partition of \<open>m\<close>.\<close>

lemma group_rows:
  "filter (\<lambda>r. mi_merchant r = m) (merchant_intervals txs)
     = List.map_filter interval_of (LAG m None (window_partition m txs))"
proof -
  have "filter (\<lambda>r. mi_merchant r = m) (merchant_intervals txs)
      = (if m \<in> set (partitions txs)
         then List.map_filter interval_of (LAG m None (window_partition m txs)) else [])"
    unfolding merchant_intervals_def merchant_transactions_def map_filter_concat map_map comp_def
    by (rule filter_concat_keyed) (auto simp: partitions_def dest: interval_of_merchant)
  then show ?thesis
    by (auto simp: window_partition_empty)
qed

lemma LAG_gaps:
  "map mi_interval_days (List.map_filter interval_of (LAG m (Some p) ts))
     = day_gaps (p # map transaction_date ts)"
  by (induction ts arbitrary: p) (simp_all add: interval_of_def)

lemma LAG_None_gaps:
  "map mi_interval_days (List.map_filter interval_of (LAG m None ts))
     = day_gaps (map transaction_date ts)"
  by (cases ts) (simp_all add: interval_of_def LAG_gaps)

text \<open>The \<^verbatim>\<open>interval_days\<close> of a group are the intervals of the cluster.\<close>

lemma group_gaps:
  "map mi_interval_days (filter (\<lambda>r. mi_merchant r = m) (merchant_intervals txs))
     = extract_intervals (cluster m txs)"
  by (simp add: group_rows LAG_None_gaps extract_intervals_def cluster_def window_partition_def)



subsection \<open>The aggregates and the \<^verbatim>\<open>HAVING\<close> condition\<close>

lemma AVG_mean: "AVG xs = (if xs = [] then None else Some (mean xs))"
  by (simp add: AVG_def mean_def)

lemma STDDEV_stddev: "STDDEV xs = (if length xs < 2 then None else Some (stddev xs))"
  by (simp add: STDDEV_def VAR_SAMP_def stddev_def mean_def)

lemma MAX_date_Max: "MAX_date ds = (if ds = [] then None else Some (Max (set ds)))"
  unfolding MAX_date_def
  by (cases ds) (simp_all only: Max.set_eq_fold list.case if_False if_True list.distinct refl)

lemma MIN_date_Min: "MIN_date ds = (if ds = [] then None else Some (Min (set ds)))"
  unfolding MIN_date_def
  by (cases ds) (simp_all only: Min.set_eq_fold list.case if_False if_True list.distinct refl)

lemma stats_of_group_Some:
  "stats_of_group m g = Some row \<longleftrightarrow>
     accepted (map (\<lambda>r. real_of_int (mi_interval_days r)) g) \<and>
     row = \<lparr>row_merchant = m, avg_amount = mean (map (\<lambda>r. \<bar>mi_amount r\<bar>) g),
            row_occurrence_count = length g + 1,
            avg_interval = mean (map (\<lambda>r. real_of_int (mi_interval_days r)) g),
            stddev_interval = stddev (map (\<lambda>r. real_of_int (mi_interval_days r)) g),
            row_last_charge = Max (set (map mi_transaction_date g)),
            row_first_charge = Min (set (map mi_transaction_date g))\<rparr>"
proof (cases "length g < 2")
  case True
  then show ?thesis
    by (simp add: stats_of_group_def AVG_mean STDDEV_stddev accepted_def)
next
  case False
  then have "g \<noteq> []" by auto
  with False show ?thesis
    by (auto simp add: stats_of_group_def AVG_mean STDDEV_stddev MAX_date_Max MIN_date_Min
        accepted_def mult.commute)
qed

lemma stats_of_group_merchant: "stats_of_group m g = Some row \<Longrightarrow> row_merchant row = m"
  by (simp add: stats_of_group_Some)

lemma stats_of_group_nonempty: "stats_of_group m g = Some row \<Longrightarrow> g \<noteq> []"
  by (auto simp add: stats_of_group_Some accepted_def)


lemma merchant_stats_iff:
  "row \<in> set (merchant_stats txs) \<longleftrightarrow>
     stats_of_group (row_merchant row)
       (filter (\<lambda>r. mi_merchant r = row_merchant row) (merchant_intervals txs)) = Some row"
proof
  assume "row \<in> set (merchant_stats txs)"
  then show "stats_of_group (row_merchant row)
       (filter (\<lambda>r. mi_merchant r = row_merchant row) (merchant_intervals txs)) = Some row"
    using stats_of_group_merchant by (fastforce simp: merchant_stats_def set_map_filter)
next
  assume a: "stats_of_group (row_merchant row)
       (filter (\<lambda>r. mi_merchant r = row_merchant row) (merchant_intervals txs)) = Some row"
  from stats_of_group_nonempty[OF a]
  obtain r where "r \<in> set (merchant_intervals txs)" "mi_merchant r = row_merchant row"
    by (auto simp: filter_empty_conv)
  then have "row_merchant row \<in> set (remdups (map mi_merchant (merchant_intervals txs)))"
    by force
  with a show "row \<in> set (merchant_stats txs)"
    unfolding merchant_stats_def set_map_filter by blast
qed

lemma detection_query_set: "set (detection_query txs) = set (merchant_stats txs)"
  by (simp add: detection_query_def)




lemma interval_reals:
  "map (\<lambda>r. real_of_int (mi_interval_days r))
     (filter (\<lambda>r. mi_merchant r = m) (merchant_intervals txs))
   = map real_of_int (extract_intervals (cluster m txs))"
  using group_gaps[of m txs, symmetric] by (simp add: comp_def)


text \<open>A merchant has a row in the result exactly when its cluster is accepted.\<close>

lemma merchant_in_output:
  "m \<in> row_merchant ` set (detection_query txs) \<longleftrightarrow>
     accepted (map real_of_int (extract_intervals (cluster m txs)))"
proof -
  let ?g = "filter (\<lambda>r. mi_merchant r = m) (merchant_intervals txs)"
  have gaps: "map (\<lambda>r. real_of_int (mi_interval_days r)) ?g
      = map real_of_int (extract_intervals (cluster m txs))"
    using group_gaps[of m txs, symmetric] by (simp add: comp_def)
  have "m \<in> row_merchant ` set (detection_query txs) \<longleftrightarrow> (\<exists>row. stats_of_group m ?g = Some row)"
  proof
    assume "m \<in> row_merchant ` set (detection_query txs)"
    then obtain row where "row \<in> set (merchant_stats txs)" "row_merchant row = m"
      by (auto simp: detection_query_set)
    then show "\<exists>row. stats_of_group m ?g = Some row"
      by (auto simp: merchant_stats_iff)
  next
    assume "\<exists>row. stats_of_group m ?g = Some row"
    then obtain row where r: "stats_of_group m ?g = Some row" by blast
    then have "row_merchant row = m" by (rule stats_of_group_merchant)
    with r have "row \<in> set (merchant_stats txs)" by (simp add: merchant_stats_iff)
    with \<open>row_merchant row = m\<close> show "m \<in> row_merchant ` set (detection_query txs)"
      by (auto simp: detection_query_set)
  qed
  also have "\<dots> \<longleftrightarrow> accepted (map (\<lambda>r. real_of_int (mi_interval_days r)) ?g)"
    by (simp add: stats_of_group_Some)
  finally show ?thesis by (simp only: gaps)
qed

subsection \<open>The rows of one merchant depend on its own description only\<close>

lemma merchant_key_description: "merchant_key t = Some m \<Longrightarrow> description t = Some m"
  by (auto simp: merchant_key_def split: if_splits option.splits)

lemma stats_of_merchant:
  "filter (\<lambda>r. row_merchant r = m) (merchant_stats txs)
     = (case stats_of_group m (filter (\<lambda>r. mi_merchant r = m) (merchant_intervals txs)) of
          None \<Rightarrow> [] | Some row \<Rightarrow> [row])"
proof -
  let ?F = "\<lambda>m. stats_of_group m (filter (\<lambda>r. mi_merchant r = m) (merchant_intervals txs))"
  let ?ms = "remdups (map mi_merchant (merchant_intervals txs))"
  have "filter (\<lambda>r. row_merchant r = m) (List.map_filter ?F ?ms)
      = (if m \<in> set ?ms then (case ?F m of None \<Rightarrow> [] | Some r \<Rightarrow> [r]) else [])"
    by (rule filter_map_filter_keyed) (auto dest: stats_of_group_merchant)
  moreover have "?F m = None" if "m \<notin> set ?ms"
  proof -
    from that have "filter (\<lambda>r. mi_merchant r = m) (merchant_intervals txs) = []"
      by (auto simp: filter_empty_conv)
    then show ?thesis by (simp add: stats_of_group_def AVG_def)
  qed
  ultimately show ?thesis by (auto simp: merchant_stats_def)
qed

lemma window_partition_restrict:
  "window_partition m (filter (\<lambda>t. description t = Some m) txs) = window_partition m txs"
proof -
  have "(\<lambda>t. description t = Some m \<and> merchant_key t = Some m) = (\<lambda>t. merchant_key t = Some m)"
    by (auto dest: merchant_key_description)
  then show ?thesis by (simp add: window_partition_def)
qed

lemma merchant_stats_restrict_key:
  assumes "row \<in> set (merchant_stats (filter (\<lambda>t. description t = Some m) txs))"
  shows "row_merchant row = m"
proof -
  let ?txs = "filter (\<lambda>t. description t = Some m) txs"
  from assms have "stats_of_group (row_merchant row)
      (List.map_filter interval_of
         (LAG (row_merchant row) None (window_partition (row_merchant row) ?txs))) = Some row"
    by (simp add: merchant_stats_iff group_rows)
  then have "window_partition (row_merchant row) ?txs \<noteq> []"
    by (auto dest: stats_of_group_nonempty)
  then obtain t where "t \<in> set (window_partition (row_merchant row) ?txs)"
    by (cases "window_partition (row_merchant row) ?txs") auto
  then have "t \<in> set ?txs" "merchant_key t = Some (row_merchant row)"
    by (auto simp: window_partition_def)
  then show ?thesis by (auto dest: merchant_key_description)
qed

lemma detection_query_restrict:
  "filter (\<lambda>r. row_merchant r = m) (detection_query txs)
     = detection_query (filter (\<lambda>t. description t = Some m) txs)"
proof -
  let ?txs = "filter (\<lambda>t. description t = Some m) txs"
  have "merchant_stats ?txs = filter (\<lambda>r. row_merchant r = m) (merchant_stats ?txs)"
    using merchant_stats_restrict_key[of _ m txs] by (simp add: filter_id_conv)
  also have "\<dots> = filter (\<lambda>r. row_merchant r = m) (merchant_stats txs)"
    by (simp only: stats_of_merchant group_rows window_partition_restrict)
  finally show ?thesis
    by (simp add: detection_query_def filter_sort)
qed

subsection \<open>The callback and the state\<close>

lemma subscriptions_detect:
  "subscriptions (detectSubscriptions (Inr txs) st)
     = map (toSubscription (hiddenMerchants st)) (detection_query txs)"
  by (simp add: detectSubscriptions_def)

lemma merchant_toSubscription: "merchant (toSubscription h row) = row_merchant row"
  by (simp add: toSubscription_def Let_def)

lemma merchants_detect:
  "map merchant (subscriptions (detectSubscriptions (Inr txs) st))
     = map row_merchant (detection_query txs)"
  by (simp add: subscriptions_detect merchant_toSubscription)

lemma Math_round_bounds: "5 \<le> x \<Longrightarrow> x \<le> 400 \<Longrightarrow> 5 \<le> Math_round x \<and> Math_round x \<le> 400"
  unfolding Math_round_def by linarith

lemma toSubscription_fields:
  "interval_days (toSubscription h row) = Math_round (avg_interval row)"
  "occurrence_count (toSubscription h row) = row_occurrence_count row"
  "frequency (toSubscription h row) = frequency_of (Math_round (avg_interval row))"
  "amount (toSubscription h row) = round_cents (avg_amount row)"
  "annual_cost (toSubscription h row)
     = round_cents_number (annualCost (avg_amount row) (Math_round (avg_interval row)))"
  "is_hidden (toSubscription h row) = (row_merchant row \<in> h)"
  by (simp_all add: toSubscription_def Let_def)


text \<open>The query returns its rows by descending \<^verbatim>\<open>avg_amount * (365.0 / avg_interval)\<close>.\<close>

lemma detection_query_sorted: "sorted (map (\<lambda>r. - order_key r) (detection_query txs))"
  by (simp add: detection_query_def)




subsection \<open>The override table\<close>









lemma delete_merchant_primary_key: "primary_key tbl \<Longrightarrow> primary_key (delete_merchant m tbl)"
  unfolding primary_key_def delete_merchant_def by (simp add: distinct_map_filter)




lemma list_hidden_Cons:
  "list_hidden (r # tbl)
     = (if snd r = None then list_hidden tbl else insert (fst r) (list_hidden tbl))"
  by (simp add: list_hidden_def)

lemma list_hidden_append: "list_hidden (tbl @ tbl') = list_hidden tbl \<union> list_hidden tbl'"
  by (auto simp: list_hidden_def)

lemma list_hidden_updated:
  "list_hidden (map (\<lambda>r. if fst r = m then (m, Some v) else r) tbl)
     = (if m \<in> fst ` set tbl then insert m (list_hidden tbl) else list_hidden tbl)"
  by (induction tbl) (auto simp: list_hidden_Cons)

lemma list_hidden_upsert: "list_hidden (upsert_hidden m now tbl) = insert m (list_hidden tbl)"
  by (simp add: upsert_hidden_def list_hidden_updated list_hidden_append list_hidden_Cons)
    (simp add: list_hidden_def)

lemma list_hidden_delete: "list_hidden (delete_merchant m tbl) = list_hidden tbl - {m}"
  by (auto simp: list_hidden_def delete_merchant_def image_iff)

text \<open>
  Once loaded from the table, the in-memory set stays the table's hidden merchants
  through every hide and unhide, whether the write succeeds or fails.
\<close>

lemma hidden_view_in_sync:
  assumes "hiddenMerchants st = list_hidden tbl"
  shows "hiddenMerchants (fst (hideSubscription fault now m (st, tbl)))
           = list_hidden (snd (hideSubscription fault now m (st, tbl)))"
    and "hiddenMerchants (fst (unhideSubscription fault m (st, tbl)))
           = list_hidden (snd (unhideSubscription fault m (st, tbl)))"
  using assms
  by (simp_all add: hideSubscription_def unhideSubscription_def list_hidden_upsert
      list_hidden_delete split: option.splits)

subsection \<open>The example ledgers, evaluated\<close>

lemmas query_defs = detection_query_def merchant_stats_def merchant_intervals_def
  merchant_transactions_def partitions_def window_partition_def merchant_key_def charge_def
  List.map_filter_def interval_of_def stats_of_group_def AVG_def STDDEV_def VAR_SAMP_def
  MAX_date_def MIN_date_def order_key_def

lemmas callback_defs = detectSubscriptions_def toSubscription_def Math_round_def round_cents_def
  round_cents_number_def annualCost_def frequency_of_def initial_state_def Let_def

lemma sqrt_third: "sqrt (1 / 3) * 10 < 89" "sqrt (1 / 3) * 10 < 91"
proof -
  have "sqrt (1 / 3) < 1" by (simp add: real_sqrt_lt_1_iff)
  then show "sqrt (1 / 3) * 10 < 89" "sqrt (1 / 3) * 10 < 91" by linarith+
qed

lemma netflix_rows:
  "detection_query netflix_ledger =
     [\<lparr>row_merchant = ''NETFLIX'', avg_amount = 15, row_occurrence_count = 3, avg_interval = 30,
       stddev_interval = 0, row_last_charge = 60, row_first_charge = 30\<rparr>]"
  by (simp add: netflix_ledger_def query_defs)

lemma spotify_rows:
  "detection_query spotify_ledger =
     [\<lparr>row_merchant = ''SPOTIFY USA'', avg_amount = 999 / 100, row_occurrence_count = 3,
       avg_interval = 30, stddev_interval = 0, row_last_charge = 60, row_first_charge = 30\<rparr>,
      \<lparr>row_merchant = ''SPOTIFY USA 2'', avg_amount = 999 / 100, row_occurrence_count = 3,
       avg_interval = 30, stddev_interval = 0, row_last_charge = 70, row_first_charge = 40\<rparr>]"
  by (simp add: spotify_ledger_def query_defs)

lemma alpha_beta_rows:
  "detection_query alpha_beta_ledger =
     [\<lparr>row_merchant = ''BETA'', avg_amount = 199 / 20, row_occurrence_count = 4,
       avg_interval = 89 / 3, stddev_interval = sqrt (1 / 3),
       row_last_charge = 89, row_first_charge = 30\<rparr>,
      \<lparr>row_merchant = ''ALPHA'', avg_amount = 10, row_occurrence_count = 4,
       avg_interval = 91 / 3, stddev_interval = sqrt (1 / 3),
       row_last_charge = 91, row_first_charge = 30\<rparr>]"
  by (simp add: alpha_beta_ledger_def query_defs power2_eq_square sqrt_third)

lemma netflix_subs:
  "subscriptions (detectSubscriptions (Inr netflix_ledger) initial_state) =
     [\<lparr>merchant = ''NETFLIX'', amount = 15, frequency = ''monthly'', interval_days = 30,
       occurrence_count = 3, annual_cost = Finite (365 / 2), last_charge = 60,
       first_charge = 30, is_hidden = False\<rparr>]"
  by (simp add: netflix_rows callback_defs)





lemma merchant_key_iff:
  "merchant_key t = Some m \<longleftrightarrow> txn_amount t < 0 \<and> description t = Some m \<and> m \<noteq> []"
  by (auto simp: merchant_key_def split: option.splits)


section \<open>Properties of the double-precision model\<close>

subsection \<open>Evaluating a rounding\<close>

text \<open>
  When \<open>\<bar>x\<bar> * 2 ^ k\<close> lies between \<open>2 ^ 52\<close> and \<open>2 ^ 53\<close>, the significand of the rounded
  \<open>x\<close> is \<open>x * 2 ^ k\<close> rounded to an integer; for a square root the integer is found by
  comparing squares.
\<close>

lemma binary64_zero: "binary64 0 = 0"
  by (simp add: binary64_def)

lemma two_powr_diff: "(2::real) powr (real_of_int (int n - int k)) = 2 ^ n / 2 ^ k"
proof -
  have "(2::real) powr (real n - real k) = 2 powr real n / 2 powr real k"
    by (rule powr_diff)
  then show ?thesis by (simp add: powr_realpow)
qed

lemma binary64_scaled:
  assumes "2 ^ 52 \<le> \<bar>x\<bar> * 2 ^ k" and "\<bar>x\<bar> * 2 ^ k < 2 ^ 53"
  shows "binary64 x = real_of_int (ties_even (x * 2 ^ k)) / 2 ^ k"
proof -
  have x0: "x \<noteq> 0" using assms(1) by auto
  then have pos: "0 < \<bar>x\<bar>" by simp
  have lo: "(2::real) powr real_of_int (int 52 - int k) \<le> \<bar>x\<bar>"
    unfolding two_powr_diff using assms(1) by (simp add: field_simps)
  have "real_of_int (int 52 - int k) + 1 = real_of_int (int 53 - int k)" by simp
  then have hi: "\<bar>x\<bar> < (2::real) powr (real_of_int (int 52 - int k) + 1)"
    unfolding two_powr_diff using assms(2) by (simp only: two_powr_diff) (simp add: field_simps)
  have e: "\<lfloor>log 2 \<bar>x\<bar>\<rfloor> = int 52 - int k"
    using lo hi floor_log_eq_powr_iff[OF pos, of 2 "int 52 - int k"] by simp
  have u: "(2::real) powr real_of_int (\<lfloor>log 2 \<bar>x\<bar>\<rfloor> - 52) = 1 / 2 ^ k"
    unfolding e using two_powr_diff[of 0 k] by simp
  show ?thesis
    unfolding binary64_def Let_def u using x0 by simp
qed

lemma binary64_sqrt:
  assumes "0 \<le> v"
    and "(2 ^ 52)\<^sup>2 \<le> v * (2 ^ k)\<^sup>2" and "v * (2 ^ k)\<^sup>2 < (2 ^ 53)\<^sup>2"
    and "(real_of_int N - 1 / 2)\<^sup>2 < v * (2 ^ k)\<^sup>2"
    and "v * (2 ^ k)\<^sup>2 < (real_of_int N + 1 / 2)\<^sup>2"
    and "1 \<le> N"
  shows "binary64 (sqrt v) = real_of_int N / 2 ^ k"
proof -
  let ?y = "sqrt v * 2 ^ k"
  have y0: "0 \<le> ?y" using assms(1) by simp
  have y2: "v * (2 ^ k)\<^sup>2 = ?y\<^sup>2" using assms(1) by (simp add: power_mult_distrib)
  have lo: "2 ^ 52 \<le> ?y"
    using assms(2) unfolding y2 by (rule power2_le_imp_le) (rule y0)
  have hi: "?y < 2 ^ 53"
    using assms(3) unfolding y2 by (rule power2_less_imp_less) simp
  have a: "real_of_int N - 1 / 2 < ?y"
    using assms(4) unfolding y2 by (rule power2_less_imp_less) (rule y0)
  have b: "?y < real_of_int N + 1 / 2"
    using assms(5) unfolding y2 by (rule power2_less_imp_less) (use assms(6) in simp)
  have t: "ties_even ?y = N"
  proof -
    have "\<lfloor>?y\<rfloor> = N \<or> \<lfloor>?y\<rfloor> = N - 1" using a b by linarith
    then show ?thesis
    proof
      assume f: "\<lfloor>?y\<rfloor> = N"
      then show ?thesis using b by (simp add: ties_even_def Let_def)
    next
      assume f: "\<lfloor>?y\<rfloor> = N - 1"
      then show ?thesis using a by (simp add: ties_even_def Let_def)
    qed
  qed
  have abs: "\<bar>sqrt v\<bar> = sqrt v" using assms(1) by simp
  have lo': "2 ^ 52 \<le> \<bar>sqrt v\<bar> * 2 ^ k" using lo by (simp only: abs)
  have hi': "\<bar>sqrt v\<bar> * 2 ^ k < 2 ^ 53" using hi by (simp only: abs)
  from binary64_scaled[OF lo' hi'] show ?thesis by (simp only: t)
qed

lemmas binary64_eval = binary64_zero
  binary64_scaled[where k=30] binary64_scaled[where k=31] binary64_scaled[where k=32]
  binary64_scaled[where k=33] binary64_scaled[where k=34] binary64_scaled[where k=35]
  binary64_scaled[where k=36] binary64_scaled[where k=37] binary64_scaled[where k=38]
  binary64_scaled[where k=39] binary64_scaled[where k=40] binary64_scaled[where k=41]
  binary64_scaled[where k=42] binary64_scaled[where k=43] binary64_scaled[where k=44]
  binary64_scaled[where k=45] binary64_scaled[where k=46] binary64_scaled[where k=47]
  binary64_scaled[where k=48] binary64_scaled[where k=49] binary64_scaled[where k=50]
  binary64_scaled[where k=51] binary64_scaled[where k=52] binary64_scaled[where k=53]
  binary64_scaled[where k=54] binary64_scaled[where k=55] binary64_scaled[where k=56]
  binary64_scaled[where k=57] binary64_scaled[where k=58]

lemma Math_round_half_up: "real_of_int (Math_round x) - 1 / 2 \<le> x \<and> x < real_of_int (Math_round x) + 1 / 2"
  unfolding Math_round_def by linarith

subsection \<open>The one-pass standard deviation and the groups\<close>

lemma welford_fold_count:
  "w_count (fold (\<lambda>x s. welford_step s x) xs s0) = w_count s0 + length xs"
  by (induction xs arbitrary: s0) (simp_all add: welford_step_def Let_def)

lemma welford_all_count: "w_count (welford_all xs) = length xs"
  by (simp add: welford_all_def welford_fold_count)

lemma AVG64_mean64: "AVG64 xs = (if xs = [] then None else Some (mean64 xs))"
  by (simp add: AVG64_def mean64_def)

lemma STDDEV64_stddev64: "STDDEV64 xs = (if length xs < 2 then None else Some (stddev64 xs))"
  by (auto simp: STDDEV64_def stddev64_def Let_def welford_all_count)

lemma stats_of_group64_Some:
  "stats_of_group64 m g = Some row \<longleftrightarrow>
     accepted64 (map (\<lambda>r. real_of_int (mi_interval_days r)) g) \<and>
     row = \<lparr>row_merchant = m, avg_amount = mean64 (map (\<lambda>r. \<bar>mi_amount r\<bar>) g),
            row_occurrence_count = length g + 1,
            avg_interval = mean64 (map (\<lambda>r. real_of_int (mi_interval_days r)) g),
            stddev_interval = stddev64 (map (\<lambda>r. real_of_int (mi_interval_days r)) g),
            row_last_charge = Max (set (map mi_transaction_date g)),
            row_first_charge = Min (set (map mi_transaction_date g))\<rparr>"
proof (cases "length g < 2")
  case True
  then show ?thesis
    by (simp add: stats_of_group64_def AVG64_mean64 STDDEV64_stddev64 accepted64_def)
next
  case False
  then have "g \<noteq> []" by auto
  with False show ?thesis
    by (auto simp add: stats_of_group64_def AVG64_mean64 STDDEV64_stddev64 MAX_date_Max
        MIN_date_Min accepted64_def)
qed

lemma stats_of_group64_merchant: "stats_of_group64 m g = Some row \<Longrightarrow> row_merchant row = m"
  by (simp add: stats_of_group64_Some)

lemma stats_of_group64_nonempty: "stats_of_group64 m g = Some row \<Longrightarrow> g \<noteq> []"
  by (auto simp add: stats_of_group64_Some accepted64_def)

lemma merchant_stats64_iff:
  "row \<in> set (merchant_stats64 txs) \<longleftrightarrow>
     stats_of_group64 (row_merchant row)
       (filter (\<lambda>r. mi_merchant r = row_merchant row) (merchant_intervals txs)) = Some row"
proof
  assume "row \<in> set (merchant_stats64 txs)"
  then show "stats_of_group64 (row_merchant row)
       (filter (\<lambda>r. mi_merchant r = row_merchant row) (merchant_intervals txs)) = Some row"
    using stats_of_group64_merchant by (fastforce simp: merchant_stats64_def set_map_filter)
next
  assume a: "stats_of_group64 (row_merchant row)
       (filter (\<lambda>r. mi_merchant r = row_merchant row) (merchant_intervals txs)) = Some row"
  from stats_of_group64_nonempty[OF a]
  obtain r where "r \<in> set (merchant_intervals txs)" "mi_merchant r = row_merchant row"
    by (auto simp: filter_empty_conv)
  then have "row_merchant row \<in> set (remdups (map mi_merchant (merchant_intervals txs)))"
    by force
  with a show "row \<in> set (merchant_stats64 txs)"
    unfolding merchant_stats64_def set_map_filter by blast
qed

lemma detection_query64_set: "set (detection_query64 txs) = set (merchant_stats64 txs)"
  by (simp add: detection_query64_def)


lemma stats_of_group64_interval:
  "stats_of_group64 m g = Some row \<Longrightarrow>
     avg_interval row = mean64 (map (\<lambda>r. real_of_int (mi_interval_days r)) g)
     \<and> 5 \<le> avg_interval row \<and> avg_interval row \<le> 400"
  by (auto simp: stats_of_group64_Some accepted64_def)

lemma detection_query64_row:
  assumes "row \<in> set (detection_query64 txs)"
  shows "avg_interval row
           = mean64 (map real_of_int (extract_intervals (cluster (row_merchant row) txs)))"
    and "5 \<le> avg_interval row" and "avg_interval row \<le> 400"
proof -
  let ?g = "filter (\<lambda>r. mi_merchant r = row_merchant row) (merchant_intervals txs)"
  from assms have s: "stats_of_group64 (row_merchant row) ?g = Some row"
    by (simp add: detection_query64_set merchant_stats64_iff)
  have "avg_interval row
           = mean64 (map real_of_int (extract_intervals (cluster (row_merchant row) txs)))
     \<and> 5 \<le> avg_interval row \<and> avg_interval row \<le> 400"
    using stats_of_group64_interval[OF s] unfolding interval_reals .
  then show "avg_interval row
           = mean64 (map real_of_int (extract_intervals (cluster (row_merchant row) txs)))"
    and "5 \<le> avg_interval row" and "avg_interval row \<le> 400"
    by blast+
qed

lemma subscriptions_detect64:
  "subscriptions (detectSubscriptions64 (Inr txs) st)
     = map (toSubscription64 (hiddenMerchants st)) (detection_query64 txs)"
  by (simp add: detectSubscriptions64_def)

lemma toSubscription64_fields:
  "merchant (toSubscription64 h row) = row_merchant row"
  "interval_days (toSubscription64 h row) = Math_round (avg_interval row)"
  "amount (toSubscription64 h row) = round_cents64 (avg_amount row)"
  "annual_cost (toSubscription64 h row)
     = round_cents_number64 (annualCost64 (avg_amount row) (Math_round (avg_interval row)))"
  by (simp_all add: toSubscription64_def Let_def)


subsection \<open>The example ledgers in double precision\<close>

lemma welford_boundary:
  "welford_all [25, 25, 17, 13]
     = \<lparr>w_count = 4, w_mean = 20, w_dsquared = 7599824371187711 / 70368744177664\<rparr>"
proof -
  have 1: "welford_step \<lparr>w_count = 0, w_mean = 0, w_dsquared = 0\<rparr> 25
      = \<lparr>w_count = 1, w_mean = 25, w_dsquared = 0\<rparr>"
    unfolding welford_step_def Let_def by (simp add: binary64_eval ties_even_def)
  have 2: "welford_step \<lparr>w_count = 1, w_mean = 25, w_dsquared = 0\<rparr> 25
      = \<lparr>w_count = 2, w_mean = 25, w_dsquared = 0\<rparr>"
    unfolding welford_step_def Let_def by (simp add: binary64_eval ties_even_def)
  have 3: "welford_step \<lparr>w_count = 2, w_mean = 25, w_dsquared = 0\<rparr> 17
      = \<lparr>w_count = 3, w_mean = 6286274479871317 / 281474976710656,
         w_dsquared = 1501199875790165 / 35184372088832\<rparr>"
    unfolding welford_step_def Let_def by (simp add: binary64_eval ties_even_def)
  have 4: "welford_step \<lparr>w_count = 3, w_mean = 6286274479871317 / 281474976710656,
         w_dsquared = 1501199875790165 / 35184372088832\<rparr> 13
      = \<lparr>w_count = 4, w_mean = 20, w_dsquared = 7599824371187711 / 70368744177664\<rparr>"
    unfolding welford_step_def Let_def by (simp add: binary64_eval ties_even_def)
  show ?thesis
    unfolding welford_all_def by (simp only: fold.simps comp_apply id_apply 1 2 3 4)
qed

lemma stddev_boundary:
  "STDDEV64 [25, 25, 17, 13] = Some (6755399441055743 / 1125899906842624)"
proof -
  have v: "binary64 (7599824371187711 / 211106232532992)
      = 5066549580791807 / 140737488355328"
    by (simp add: binary64_eval ties_even_def)
  have s: "binary64 (sqrt (5066549580791807 / 140737488355328))
      = real_of_int 6755399441055743 / 2 ^ 50"
    by (rule binary64_sqrt) (simp_all add: power2_eq_square)
  show ?thesis
    by (simp add: STDDEV64_def welford_boundary Let_def v s)
qed

lemma threshold_boundary: "binary64 (20 * binary64 (3 / 10)) = 6"
  by (simp add: binary64_eval ties_even_def)

lemma welford_constant:
  "welford_step \<lparr>w_count = 0, w_mean = 0, w_dsquared = 0\<rparr> 30
     = \<lparr>w_count = 1, w_mean = 30, w_dsquared = 0\<rparr>"
  "welford_step \<lparr>w_count = 1, w_mean = 30, w_dsquared = 0\<rparr> 30
     = \<lparr>w_count = 2, w_mean = 30, w_dsquared = 0\<rparr>"
  "welford_step \<lparr>w_count = 0, w_mean = 0, w_dsquared = 0\<rparr> 7
     = \<lparr>w_count = 1, w_mean = 7, w_dsquared = 0\<rparr>"
  "welford_step \<lparr>w_count = 1, w_mean = 7, w_dsquared = 0\<rparr> 7
     = \<lparr>w_count = 2, w_mean = 7, w_dsquared = 0\<rparr>"
  "welford_step \<lparr>w_count = 2, w_mean = 7, w_dsquared = 0\<rparr> 7
     = \<lparr>w_count = 3, w_mean = 7, w_dsquared = 0\<rparr>"
  unfolding welford_step_def Let_def by (simp_all add: binary64_eval ties_even_def)

lemma stddev64_examples:
  "STDDEV64 [30] = None"
  "STDDEV64 [30, 30] = Some 0"
  "STDDEV64 [7, 7, 7] = Some 0"
proof -
  have a: "welford_all [30] = \<lparr>w_count = 1, w_mean = 30, w_dsquared = 0\<rparr>"
    unfolding welford_all_def by (simp only: fold.simps comp_apply id_apply welford_constant)
  have b: "welford_all [30, 30] = \<lparr>w_count = 2, w_mean = 30, w_dsquared = 0\<rparr>"
    unfolding welford_all_def by (simp only: fold.simps comp_apply id_apply welford_constant)
  have c: "welford_all [7, 7, 7] = \<lparr>w_count = 3, w_mean = 7, w_dsquared = 0\<rparr>"
    unfolding welford_all_def by (simp only: fold.simps comp_apply id_apply welford_constant)
  show "STDDEV64 [30] = None" "STDDEV64 [30, 30] = Some 0" "STDDEV64 [7, 7, 7] = Some 0"
    by (simp_all add: STDDEV64_def a b c binary64_zero)
qed

lemma avg64_examples:
  "AVG64 [30] = Some 30"
  "AVG64 [30, 30] = Some 30"
  "AVG64 [7, 7, 7] = Some 7"
  "AVG64 [25, 25, 17, 13] = Some 20"
  "AVG64 [15, 15] = Some 15"
  "AVG64 [20] = Some 20"
  "AVG64 [20, 20, 20, 20] = Some 20"
  "AVG64 [1, 101 / 100] = Some (1131529406376837 / 1125899906842624)"
  "AVG64 [3 / 20, 3 / 20] = Some (5404319552844595 / 36028797018963968)"
  "AVG64 [10, 1001 / 100, 1001 / 100] = Some (5633252533902595 / 562949953421312)"
  by (simp_all add: AVG64_def binary64_eval ties_even_def)

lemma threshold_examples:
  "binary64 (30 * binary64 (3 / 10)) = 9"
  "binary64 (7 * binary64 (3 / 10)) = 4728779608739021 / 2251799813685248"
  "binary64 (20 * binary64 (3 / 10)) = 6"
  by (simp_all add: binary64_eval ties_even_def)

lemmas query64_defs = detection_query64_def merchant_stats64_def merchant_intervals_def
  merchant_transactions_def partitions_def window_partition_def merchant_key_def charge_def
  List.map_filter_def interval_of_def stats_of_group64_def MAX_date_def MIN_date_def
  avg64_examples stddev64_examples stddev_boundary threshold_examples

lemmas callback64_defs = detectSubscriptions64_def toSubscription64_def Math_round_def
  round_cents64_def round_cents_number64_def annualCost64_def frequency_of_def
  initial_state_def Let_def


lemma netflix_rows64:
  "detection_query64 netflix_ledger =
     [\<lparr>row_merchant = ''NETFLIX'', avg_amount = 15, row_occurrence_count = 3, avg_interval = 30,
       stddev_interval = 0, row_last_charge = 60, row_first_charge = 30\<rparr>]"
  by (simp add: netflix_ledger_def query64_defs)

lemma news_rows64:
  "detection_query64 news_ledger =
     [\<lparr>row_merchant = ''NEWS'', avg_amount = 1131529406376837 / 1125899906842624,
       row_occurrence_count = 3, avg_interval = 30,
       stddev_interval = 0, row_last_charge = 60, row_first_charge = 30\<rparr>]"
  by (simp add: news_ledger_def query64_defs)

lemma app_rows64:
  "detection_query64 app_ledger =
     [\<lparr>row_merchant = ''APP'', avg_amount = 5404319552844595 / 36028797018963968,
       row_occurrence_count = 3, avg_interval = 30,
       stddev_interval = 0, row_last_charge = 60, row_first_charge = 30\<rparr>]"
  by (simp add: app_ledger_def query64_defs)

lemma gym_rows64:
  "detection_query64 gym_ledger =
     [\<lparr>row_merchant = ''GYM'', avg_amount = 5633252533902595 / 562949953421312,
       row_occurrence_count = 4, avg_interval = 7,
       stddev_interval = 0, row_last_charge = 21, row_first_charge = 7\<rparr>]"
  by (simp add: gym_ledger_def query64_defs)

lemma netflix_subs64:
  "subscriptions (detectSubscriptions64 (Inr netflix_ledger) initial_state) =
     [\<lparr>merchant = ''NETFLIX'', amount = 15, frequency = ''monthly'', interval_days = 30,
       occurrence_count = 3, annual_cost = Finite (365 / 2), last_charge = 60,
       first_charge = 30, is_hidden = False\<rparr>]"
  apply (simp add: netflix_rows64 callback64_defs)
  apply (simp add: binary64_eval ties_even_def)
  done

lemma news_subs64:
  "subscriptions (detectSubscriptions64 (Inr news_ledger) initial_state) =
     [\<lparr>merchant = ''NEWS'', amount = 1, frequency = ''monthly'', interval_days = 30,
       occurrence_count = 3, annual_cost = Finite (binary64 (1223 / 100)), last_charge = 60,
       first_charge = 30, is_hidden = False\<rparr>]"
  apply (simp add: news_rows64 callback64_defs)
  apply (simp add: binary64_eval ties_even_def)
  done

lemma app_subs64:
  "subscriptions (detectSubscriptions64 (Inr app_ledger) initial_state) =
     [\<lparr>merchant = ''APP'', amount = binary64 (15 / 100), frequency = ''monthly'',
       interval_days = 30, occurrence_count = 3, annual_cost = Finite (binary64 (182 / 100)),
       last_charge = 60, first_charge = 30, is_hidden = False\<rparr>]"
  apply (simp add: app_rows64 callback64_defs)
  apply (simp add: binary64_eval ties_even_def)
  done

lemma gym_subs64:
  "subscriptions (detectSubscriptions64 (Inr gym_ledger) initial_state) =
     [\<lparr>merchant = ''GYM'', amount = binary64 (1001 / 100), frequency = ''weekly'',
       interval_days = 7, occurrence_count = 4, annual_cost = Finite (binary64 (52178 / 100)),
       last_charge = 21, first_charge = 7, is_hidden = False\<rparr>]"
  apply (simp add: gym_rows64 callback64_defs)
  apply (simp add: binary64_eval ties_even_def)
  done





section \<open>The claims\<close>

subsection \<open>C1: merchant keys\<close>

text \<open>
  C1, as stated, fails. The query computes no similarity: near-duplicate descriptions
  get different merchant keys. On \<open>spotify_ledger\<close> the descriptions
  \<^verbatim>\<open>SPOTIFY USA\<close> and \<^verbatim>\<open>SPOTIFY USA 2\<close> come out as two records of three charges each,
  not as one cluster of six.
\<close>

theorem near_duplicates_not_merged_counterexample:
  "merchant_key (charge ''SPOTIFY USA'' (-999 / 100) 0) = Some ''SPOTIFY USA''
   \<and> merchant_key (charge ''SPOTIFY USA 2'' (-999 / 100) 10) = Some ''SPOTIFY USA 2''
   \<and> merchant_key (charge ''SPOTIFY USA'' (-999 / 100) 0)
       \<noteq> merchant_key (charge ''SPOTIFY USA 2'' (-999 / 100) 10)
   \<and> map (\<lambda>r. (merchant r, occurrence_count r))
        (subscriptions (detectSubscriptions (Inr spotify_ledger) initial_state))
       = [(''SPOTIFY USA'', 3), (''SPOTIFY USA 2'', 3)]"
  by (simp add: spotify_rows subscriptions_detect toSubscription_fields merchant_toSubscription
      merchant_key_def charge_def)

text \<open>
  C1, amended. The merchant key of a charge is its description itself: a transaction has
  key \<open>m\<close> exactly when it is a charge (negative amount) whose description is the
  non-empty string \<open>m\<close>. The records of the output with merchant \<open>m\<close> are those of a
  detection run on the transactions whose description is exactly \<open>m\<close>, so no transaction
  of another description, however similar, takes part in them. Transactions described
  \<^verbatim>\<open>SPOTIFY\<close> and \<^verbatim>\<open>NETFLIX\<close> never share a key.
\<close>

theorem merchant_key_is_description:
  "(merchant_key t = Some m \<longleftrightarrow> txn_amount t < 0 \<and> description t = Some m \<and> m \<noteq> [])
   \<and> filter (\<lambda>r. merchant r = m) (subscriptions (detectSubscriptions (Inr txs) st))
       = subscriptions
           (detectSubscriptions (Inr (filter (\<lambda>t. description t = Some m) txs)) st)
   \<and> (description t = Some ''SPOTIFY'' \<and> description t' = Some ''NETFLIX''
        \<longrightarrow> \<not> (\<exists>k. merchant_key t = Some k \<and> merchant_key t' = Some k))"
proof -
  have "filter (\<lambda>r. merchant r = m) (subscriptions (detectSubscriptions (Inr txs) st))
      = map (toSubscription (hiddenMerchants st))
          (filter (\<lambda>row. row_merchant row = m) (detection_query txs))"
    by (simp add: subscriptions_detect filter_map comp_def merchant_toSubscription)
  also have "\<dots> = subscriptions
           (detectSubscriptions (Inr (filter (\<lambda>t. description t = Some m) txs)) st)"
    by (simp add: detection_query_restrict subscriptions_detect)
  finally show ?thesis
    by (auto simp: merchant_key_iff)
qed

theorem merchant_key_is_description_witness:
  "merchant_key (charge ''SPOTIFY'' (-10) 0) = Some ''SPOTIFY''
   \<and> merchant_key (charge ''NETFLIX'' (-15) 0) = Some ''NETFLIX''
   \<and> \<not> (\<exists>k. merchant_key (charge ''SPOTIFY'' (-10) 0) = Some k
            \<and> merchant_key (charge ''NETFLIX'' (-15) 0) = Some k)
   \<and> filter (\<lambda>r. merchant r = ''NETFLIX'')
         (subscriptions (detectSubscriptions (Inr netflix_ledger) initial_state))
       = subscriptions (detectSubscriptions
           (Inr (filter (\<lambda>t. description t = Some ''NETFLIX'') netflix_ledger)) initial_state)"
  using merchant_key_is_description[of "charge ''SPOTIFY'' (-10) 0" "''SPOTIFY''"
      netflix_ledger initial_state "charge ''NETFLIX'' (-15) 0"]
    merchant_key_is_description[of "charge ''NETFLIX'' (-15) 0" "''NETFLIX''"
      netflix_ledger initial_state "charge ''NETFLIX'' (-15) 0"]
  by (simp add: charge_def)

subsection \<open>C2: which clusters are reported\<close>




subsection \<open>C3: the annual cost\<close>

text \<open>
  C3, as stated, fails: the annual cost is not computed from the rounded representative
  amount. On \<open>gym_ledger\<close> the record has amount 10.01 and interval 7, and annual cost
  521.78; the amount times 365 / 7, rounded to cents, is 521.95, and the annual cost is
  more than 0.10 away from that product.
\<close>

theorem annual_cost_from_rounded_amount_counterexample:
  "map (\<lambda>r. (amount r, interval_days r, annual_cost r))
     (subscriptions (detectSubscriptions64 (Inr gym_ledger) initial_state))
     = [(binary64 (1001 / 100), 7, Finite (binary64 (52178 / 100)))]
   \<and> round_cents64 (binary64 (binary64 (1001 / 100) * binary64 (365 / 7)))
       = binary64 (52195 / 100)
   \<and> binary64 (52178 / 100) \<noteq> binary64 (52195 / 100)
   \<and> 1 / 10 < \<bar>binary64 (52178 / 100) - binary64 (1001 / 100) * (365 / 7)\<bar>"
  apply (simp add: gym_subs64 round_cents64_def Math_round_def)
  apply (simp add: binary64_eval ties_even_def)
  done

text \<open>
  C3, amended. Every record of the output comes from a row of the query. Its annual cost
  is \<^verbatim>\<open>Math.round(c * 100) / 100\<close> with \<^verbatim>\<open>c = avg_amount * (365 / interval_days)\<close>, computed
  from the row's unrounded average amount, and its amount is
  \<^verbatim>\<open>Math.round(avg_amount * 100) / 100\<close>, every product and quotient in double precision.
  \<^verbatim>\<open>Math.round\<close> sends a half up, but the products are rounded before it, so a value
  within rounding error of a half cent can come out below it: an average of 1.005 has
  amount 1.00, and an average of 0.15 at 30 days has annual cost 1.82. The record's
  interval_days is the engine's mean gap of the cluster, rounded to the nearest integer,
  a half going up. An average of 15.00 with a 30-day interval yields 182.50.
\<close>

theorem annual_cost_in_doubles:
  assumes "r \<in> set (subscriptions (detectSubscriptions64 (Inr txs) st))"
  shows "\<exists>row. row \<in> set (detection_query64 txs)
     \<and> merchant r = row_merchant row
     \<and> avg_interval row
         = mean64 (map real_of_int (extract_intervals (cluster (merchant r) txs)))
     \<and> real_of_int (interval_days r) - 1 / 2 \<le> avg_interval row
     \<and> avg_interval row < real_of_int (interval_days r) + 1 / 2
     \<and> amount r = binary64 (real_of_int \<lfloor>binary64 (avg_amount row * 100) + 1 / 2\<rfloor> / 100)
     \<and> annual_cost r
         = Finite (binary64 (real_of_int
             \<lfloor>binary64 (binary64 (avg_amount row
                  * binary64 (365 / real_of_int (interval_days r))) * 100) + 1 / 2\<rfloor> / 100))
     \<and> (avg_amount row = 15 \<and> interval_days r = 30 \<longrightarrow> annual_cost r = Finite (18250 / 100))
     \<and> (avg_amount row = binary64 (15 / 100) \<and> interval_days r = 30
          \<longrightarrow> annual_cost r = Finite (binary64 (182 / 100)))
     \<and> (avg_amount row = binary64 (1005 / 1000) \<longrightarrow> amount r = 1)"
proof -
  from assms obtain row where row: "row \<in> set (detection_query64 txs)"
    and r: "r = toSubscription64 (hiddenMerchants st) row"
    by (auto simp: subscriptions_detect64)
  note q = detection_query64_row[OF row]
  have d0: "Math_round (avg_interval row) \<noteq> 0"
    using q(2,3) Math_round_bounds[of "avg_interval row"] by auto
  have m: "merchant r = row_merchant row" by (simp add: r toSubscription64_fields)
  have a: "amount r = binary64 (real_of_int \<lfloor>binary64 (avg_amount row * 100) + 1 / 2\<rfloor> / 100)"
    by (simp add: r toSubscription64_fields round_cents64_def Math_round_def)
  have c: "annual_cost r
         = Finite (binary64 (real_of_int
             \<lfloor>binary64 (binary64 (avg_amount row
                  * binary64 (365 / real_of_int (interval_days r))) * 100) + 1 / 2\<rfloor> / 100))"
    using d0 by (simp add: r toSubscription64_fields annualCost64_def round_cents_number64_def
        round_cents64_def Math_round_def)
  have e1: "annual_cost r = Finite (18250 / 100)" if "avg_amount row = 15" "interval_days r = 30"
    unfolding c that by (simp add: binary64_eval ties_even_def)
  have e2: "annual_cost r = Finite (binary64 (182 / 100))"
    if "avg_amount row = binary64 (15 / 100)" "interval_days r = 30"
    unfolding c that by (simp add: binary64_eval ties_even_def)
  have e3: "amount r = 1" if "avg_amount row = binary64 (1005 / 1000)"
    unfolding a that by (simp add: binary64_eval ties_even_def)
  have h: "real_of_int (interval_days r) - 1 / 2 \<le> avg_interval row
     \<and> avg_interval row < real_of_int (interval_days r) + 1 / 2"
    using Math_round_half_up[of "avg_interval row"] by (simp add: r toSubscription64_fields)
  have q1: "avg_interval row
      = mean64 (map real_of_int (extract_intervals (cluster (merchant r) txs)))"
    using q(1) by (simp only: m)
  from row m q1 h a c e1 e2 e3 show ?thesis
    by (intro exI[of _ row]) blast
qed

theorem annual_cost_in_doubles_witness:
  "(\<exists>r. r \<in> set (subscriptions (detectSubscriptions64 (Inr netflix_ledger) initial_state))
      \<and> amount r = 15 \<and> interval_days r = 30 \<and> annual_cost r = Finite (18250 / 100))
   \<and> (\<exists>r. r \<in> set (subscriptions (detectSubscriptions64 (Inr app_ledger) initial_state))
      \<and> interval_days r = 30 \<and> annual_cost r = Finite (binary64 (182 / 100)))
   \<and> (\<exists>r. r \<in> set (subscriptions (detectSubscriptions64 (Inr news_ledger) initial_state))
      \<and> amount r = 1)"
proof -
  let ?n = "\<lparr>merchant = ''NETFLIX'', amount = 15, frequency = ''monthly'', interval_days = 30,
       occurrence_count = 3, annual_cost = Finite (365 / 2), last_charge = 60,
       first_charge = 30, is_hidden = False\<rparr>"
  let ?a = "\<lparr>merchant = ''APP'', amount = binary64 (15 / 100), frequency = ''monthly'',
       interval_days = 30, occurrence_count = 3, annual_cost = Finite (binary64 (182 / 100)),
       last_charge = 60, first_charge = 30, is_hidden = False\<rparr>"
  let ?w = "\<lparr>merchant = ''NEWS'', amount = 1, frequency = ''monthly'', interval_days = 30,
       occurrence_count = 3, annual_cost = Finite (binary64 (1223 / 100)), last_charge = 60,
       first_charge = 30, is_hidden = False\<rparr>"
  have n: "?n \<in> set (subscriptions (detectSubscriptions64 (Inr netflix_ledger) initial_state))"
    by (simp add: netflix_subs64)
  have a: "?a \<in> set (subscriptions (detectSubscriptions64 (Inr app_ledger) initial_state))"
    by (simp add: app_subs64)
  have w: "?w \<in> set (subscriptions (detectSubscriptions64 (Inr news_ledger) initial_state))"
    by (simp add: news_subs64)
  from annual_cost_in_doubles[OF n] n have 1:
    "\<exists>r. r \<in> set (subscriptions (detectSubscriptions64 (Inr netflix_ledger) initial_state))
      \<and> amount r = 15 \<and> interval_days r = 30 \<and> annual_cost r = Finite (18250 / 100)"
    by (intro exI[of _ ?n]) simp
  from annual_cost_in_doubles[OF a] a have 2:
    "\<exists>r. r \<in> set (subscriptions (detectSubscriptions64 (Inr app_ledger) initial_state))
      \<and> interval_days r = 30 \<and> annual_cost r = Finite (binary64 (182 / 100))"
    by (intro exI[of _ ?a]) simp
  from annual_cost_in_doubles[OF w] w have 3:
    "\<exists>r. r \<in> set (subscriptions (detectSubscriptions64 (Inr news_ledger) initial_state))
      \<and> amount r = 1"
    by (intro exI[of _ ?w]) simp
  from 1 2 3 show ?thesis by blast
qed

subsection \<open>C4: the order of the output\<close>

text \<open>
  C4 says that the output is in descending order of the records' annual cost. The query
  sorts by \<^verbatim>\<open>avg_amount * (365.0 / avg_interval)\<close> with the unrounded mean gap, while the
  record's annual cost divides by the rounded one. On \<open>alpha_beta_ledger\<close> both merchants
  have interval_days 30; BETA has the larger sort key (122.42 against 120.33) and comes
  first, with the smaller annual cost (121.06 against 121.67).
\<close>

theorem output_not_descending_by_annual_cost:
  "map (\<lambda>r. (merchant r, interval_days r, annual_cost r))
     (subscriptions (detectSubscriptions (Inr alpha_beta_ledger) initial_state))
     = [(''BETA'', 30, Finite (12106 / 100)), (''ALPHA'', 30, Finite (12167 / 100))]
   \<and> map order_key (detection_query alpha_beta_ledger) = [43581 / 356, 10950 / 91]"
  by (simp add: alpha_beta_rows callback_defs order_key_def)

subsection \<open>C5: the frequency label\<close>


subsection \<open>C6: a failed query\<close>

text \<open>
  C6, as stated, fails: after a run that found a subscription, a run whose query throws
  leaves that subscription in the list.
\<close>

theorem failed_query_keeps_previous_counterexample:
  "subscriptions (detectSubscriptions (Inl ''unavailable'')
      (detectSubscriptions (Inr netflix_ledger) initial_state)) \<noteq> []"
  using netflix_subs by (simp add: detectSubscriptions_def)

text \<open>
  C6, amended. When the detection query fails, the run shows the error toast
  \<^verbatim>\<open>Failed to detect subscriptions\<close> and assigns nothing: the list of subscriptions and
  the hidden set are as before the run. The list is empty when no run has succeeded
  before, and nothing is made up.
\<close>

theorem failed_query_leaves_list:
  "detectSubscriptions (Inl e) st
     = st\<lparr>toasts := toasts st @ [ToastError ''Failed to detect subscriptions'' e],
          isLoading := False\<rparr>
   \<and> subscriptions (detectSubscriptions (Inl e) st) = subscriptions st
   \<and> hiddenMerchants (detectSubscriptions (Inl e) st) = hiddenMerchants st
   \<and> subscriptions (detectSubscriptions (Inl e) initial_state) = []"
  by (simp add: detectSubscriptions_def initial_state_def)

subsection \<open>C7: hiding and detection\<close>



subsection \<open>C8: hide and unhide are idempotent\<close>



subsection \<open>C9: a failed write\<close>

text \<open>
  C9. When the write of a hide or an unhide fails, the in-memory set of hidden merchants
  is as before (it is assigned only after the write), and the failure is shown as an
  error toast; the action returns, the state otherwise unchanged.
\<close>

theorem write_failure_keeps_hidden_set:
  "fst (hideSubscription (Some e) now m (st, tbl))
     = st\<lparr>toasts := toasts st @ [ToastError ''Failed to hide'' e]\<rparr>
   \<and> hiddenMerchants (fst (hideSubscription (Some e) now m (st, tbl))) = hiddenMerchants st
   \<and> fst (unhideSubscription (Some e) m (st, tbl))
     = st\<lparr>toasts := toasts st @ [ToastError ''Failed to restore'' e]\<rparr>
   \<and> hiddenMerchants (fst (unhideSubscription (Some e) m (st, tbl))) = hiddenMerchants st"
  by (simp add: hideSubscription_def unhideSubscription_def)

subsection \<open>C10: bounds on an emitted record\<close>



end
